theory Spec2Isabelle
  imports Main "HOL-Library.Sublist" "HOL-Library.Word"
begin

section \<open>The contact-form relay: data\<close>

text \<open>
  The repository is one FastAPI route, \<^verbatim>\<open>email\<close> in \<^verbatim>\<open>contact-form/app.py\<close>. It parses the
  request body as JSON, opens a trace span, builds a SendGrid \<^verbatim>\<open>Mail\<close>, sends it and
  answers with a dict or an \<^verbatim>\<open>HTTPException\<close>.

  The value \<^verbatim>\<open>message_data\<close> is whatever \<^verbatim>\<open>request.json()\<close> returns: any Python value a
  JSON document denotes. A dict is kept as the list of its items and read with
  \<open>map_of\<close>. A float is kept as its 64 bits; the handler never computes with one.
\<close>

datatype json =
    JNull
  | JBool bool
  | JInt int
  | JFloat "64 word"
  | JStr string
  | JArr "json list"
  | JObj "(string \<times> json) list"

text \<open>
  Instances of Python's \<^verbatim>\<open>Exception\<close>, the class the handler's \<^verbatim>\<open>except\<close> clause names. The
  two that subscripting raises are kept apart; any other one (the parser's, the mail
  library's, the provider's) is known by its text \<^verbatim>\<open>str(e)\<close> only.
\<close>

datatype py_exception =
    KeyError string
  | TypeError string
  | OtherException string

definition quote :: "string \<Rightarrow> string" where
  "quote s = CHR 0x27 # s @ [CHR 0x27]"

text \<open>
  \<^verbatim>\<open>message_data[key]\<close> with a \<^verbatim>\<open>str\<close> key. A dict without the key raises \<^verbatim>\<open>KeyError\<close>; every
  other JSON value raises \<^verbatim>\<open>TypeError\<close> (the texts are CPython 3.11's; no property below
  depends on them).
\<close>

fun getitem :: "json \<Rightarrow> string \<Rightarrow> py_exception + json" where
  "getitem (JObj kvs) k =
     (case map_of kvs k of None \<Rightarrow> Inl (KeyError k) | Some v \<Rightarrow> Inr v)"
| "getitem (JArr xs) k =
     Inl (TypeError ''list indices must be integers or slices, not str'')"
| "getitem (JStr s) k =
     Inl (TypeError (''string indices must be integers, not '' @ quote ''str''))"
| "getitem JNull k =
     Inl (TypeError (quote ''NoneType'' @ '' object is not subscriptable''))"
| "getitem (JBool b) k =
     Inl (TypeError (quote ''bool'' @ '' object is not subscriptable''))"
| "getitem (JInt n) k =
     Inl (TypeError (quote ''int'' @ '' object is not subscriptable''))"
| "getitem (JFloat x) k =
     Inl (TypeError (quote ''float'' @ '' object is not subscriptable''))"

text \<open>
  What the mail library keeps as the \<^verbatim>\<open>reply_to\<close> of a message. Its setter turns a \<^verbatim>\<open>str\<close> into
  \<^verbatim>\<open>ReplyTo(value, None)\<close>, an object with an address and a display name, either of which
  may be absent; a value of any other type is kept as it is.
\<close>

record recipient =
  address :: "string option"
  display_name :: "string option"

datatype reply_to_value =
    Parsed recipient
  | Stored json

text \<open>
  The \<^verbatim>\<open>Mail\<close> object as the handler fills it: the four keyword arguments of the
  constructor (lines 61--66) and the \<^verbatim>\<open>reply_to\<close> attribute as the assignment of line 67
  leaves it. The two addresses come from \<^verbatim>\<open>os.environ.get\<close>, which gives \<^verbatim>\<open>None\<close> for an
  unset variable.
\<close>

record mail =
  to_emails :: "string option"
  from_email :: "string option"
  subject :: json
  html_content :: string
  reply_to :: "reply_to_value option"

record response =
  status_code :: int

record request =
  body :: string

text \<open>
  Everything the handler calls but the repository does not define:
  \<^item> \<open>environ\<close>: \<^verbatim>\<open>os.environ\<close>;
  \<^item> \<open>json_loads\<close>: the framework's \<^verbatim>\<open>request.json()\<close> on the body, a value or the
    exception it raises;
  \<^item> \<open>py_repr\<close>: the interpreter's \<^verbatim>\<open>repr\<close>;
  \<^item> \<open>Mail_init\<close>: the exception the mail library's constructor raises for its
    arguments, if any;
  \<^item> \<open>ReplyTo_init\<close>: the mail library's \<^verbatim>\<open>ReplyTo(value, None)\<close> for a \<^verbatim>\<open>str\<close>, which parses
    the string into an address and a display name;
  \<^item> \<open>send\<close>: \<^verbatim>\<open>SendGridAPIClient(key).send(message)\<close>, a response or the exception it
    raises.
\<close>

record world =
  environ :: "string \<Rightarrow> string option"
  json_loads :: "string \<Rightarrow> py_exception + json"
  py_repr :: "json \<Rightarrow> string"
  Mail_init :: "mail \<Rightarrow> py_exception option"
  ReplyTo_init :: "string \<Rightarrow> recipient"
  send :: "string option \<Rightarrow> mail \<Rightarrow> py_exception + response"

text \<open>
  A replacement field \<^verbatim>\<open>{v}\<close> of an f-string: \<^verbatim>\<open>format(v, '')\<close>, which is the string itself
  for a \<^verbatim>\<open>str\<close> and \<^verbatim>\<open>repr(v)\<close> for every other JSON value.
\<close>

definition py_str :: "world \<Rightarrow> json \<Rightarrow> string" where
  "py_str w v = (case v of JStr s \<Rightarrow> s | _ \<Rightarrow> py_repr w v)"

text \<open>
  \<^verbatim>\<open>repr\<close> of a \<^verbatim>\<open>str\<close>. A string of printable ASCII characters without a single quote or a
  backslash is written as it is between single quotes; any other string is left to the
  interpreter.
\<close>

definition plain :: "string \<Rightarrow> bool" where
  "plain s =
     list_all (\<lambda>c. 32 \<le> (of_char c :: nat) \<and> (of_char c :: nat) \<le> 126
                    \<and> c \<noteq> CHR 0x27 \<and> c \<noteq> CHR 0x5C) s"

definition repr_str :: "world \<Rightarrow> string \<Rightarrow> string" where
  "repr_str w s = (if plain s then quote s else py_repr w (JStr s))"

text \<open>
  \<^verbatim>\<open>str(e)\<close>. For a \<^verbatim>\<open>KeyError\<close> it is the \<^verbatim>\<open>repr\<close> of the key; for the others it is the text.
\<close>

fun str_exn :: "world \<Rightarrow> py_exception \<Rightarrow> string" where
  "str_exn w (KeyError k) = repr_str w k"
| "str_exn w (TypeError t) = t"
| "str_exn w (OtherException t) = t"

text \<open>
  The assignment \<^verbatim>\<open>message.reply_to = value\<close> (line 67) goes through the mail library's
  setter: a \<^verbatim>\<open>str\<close> becomes \<^verbatim>\<open>ReplyTo(value, None)\<close>; any other JSON value (never a tuple) is
  stored unchanged.
\<close>

definition set_reply_to :: "world \<Rightarrow> json \<Rightarrow> reply_to_value" where
  "set_reply_to w v = (case v of JStr s \<Rightarrow> Parsed (ReplyTo_init w s) | _ \<Rightarrow> Stored v)"

text \<open>
  The reply-to address the provider is given with a message: the address of the
  \<^verbatim>\<open>ReplyTo\<close> object, if the message holds one and it has an address.
\<close>

fun reply_to_address :: "mail \<Rightarrow> string option" where
  "reply_to_address m =
     (case reply_to m of Some (Parsed r) \<Rightarrow> address r | _ \<Rightarrow> None)"

text \<open>
  What the handler does to the outside, in the order it does it: log records, calls
  on the span, and the call of the provider with the API key and the message.
  \<open>EndSpan\<close> marks the exit of the \<^verbatim>\<open>with\<close> block; what the tracing library does to the
  span by itself on the way out is not a call of the handler and is not recorded.
\<close>

datatype span_status = StatusOK | StatusERROR string

datatype event =
    LogInfo string
  | LogError string
  | StartSpan string
  | SetAttribute string json
  | SetStatus span_status
  | Send "string option" mail
  | EndSpan

fun is_Send :: "event \<Rightarrow> bool" where
  "is_Send (Send k m) = True"
| "is_Send _ = False"

fun span_attributes :: "event list \<Rightarrow> (string \<times> json) list" where
  "span_attributes [] = []"
| "span_attributes (SetAttribute k v # evs) = (k, v) # span_attributes evs"
| "span_attributes (_ # evs) = span_attributes evs"

text \<open>
  How a call of the handler ends: it returns a value, raises \<^verbatim>\<open>HTTPException(status_code,
  detail)\<close>, or lets another exception through to the framework.
\<close>

datatype outcome =
    Return json
  | RaiseHTTPException int string
  | Raise py_exception

text \<open>
  The framework's answer for the route as declared (\<^verbatim>\<open>@app.post("/email")\<close>, no status
  code given): a returned dict is the body of a 200; an \<^verbatim>\<open>HTTPException\<close> is answered with
  its status code and the body \<^verbatim>\<open>{"detail": detail}\<close>. An exception that is let through
  is not answered by the handler.
\<close>

fun http_response :: "outcome \<Rightarrow> (int \<times> json) option" where
  "http_response (Return v) = Some (200, v)"
| "http_response (RaiseHTTPException sc d) = Some (sc, JObj [(''detail'', JStr d)])"
| "http_response (Raise e) = None"

section \<open>The handler\<close>

text \<open>
  The body of the \<^verbatim>\<open>try\<close> (lines 56--77): the value returned or the exception raised,
  and the events up to there. Arguments are evaluated left to right, so the lookups
  happen in the order \<^verbatim>\<open>subject\<close>, \<^verbatim>\<open>email\<close>, \<^verbatim>\<open>subject\<close>, \<^verbatim>\<open>message\<close>, \<^verbatim>\<open>name\<close>, \<^verbatim>\<open>email\<close>.
\<close>

definition email_try :: "world \<Rightarrow> json \<Rightarrow> (py_exception + json) \<times> event list" where
  "email_try w message_data =
    (case getitem message_data ''subject'' of
       Inl e \<Rightarrow> (Inl e, [])
     | Inr subject1 \<Rightarrow>
    (case getitem message_data ''email'' of
       Inl e \<Rightarrow> (Inl e, [SetAttribute ''email.subject'' subject1])
     | Inr email1 \<Rightarrow>
    (let attrs = [SetAttribute ''email.subject'' subject1,
                  SetAttribute ''email.from'' email1]
     in
    (case getitem message_data ''subject'' of
       Inl e \<Rightarrow> (Inl e, attrs)
     | Inr subject2 \<Rightarrow>
    (case getitem message_data ''message'' of
       Inl e \<Rightarrow> (Inl e, attrs)
     | Inr message1 \<Rightarrow>
    (case getitem message_data ''name'' of
       Inl e \<Rightarrow> (Inl e, attrs)
     | Inr name1 \<Rightarrow>
    (let message =
           \<lparr>to_emails = environ w ''SENDGRID_TO_EMAIL'',
            from_email = environ w ''SENDGRID_FROM_EMAIL'',
            subject = subject2,
            html_content = py_str w message1 @ ''<br />From: '' @ py_str w name1,
            reply_to = None\<rparr>
     in
    (case Mail_init w message of
       Some e \<Rightarrow> (Inl e, attrs)
     | None \<Rightarrow>
    (case getitem message_data ''email'' of
       Inl e \<Rightarrow> (Inl e, attrs)
     | Inr email2 \<Rightarrow>
    (let message = message\<lparr>reply_to := Some (set_reply_to w email2)\<rparr>;
         key = environ w ''SENDGRID_API_KEY'';
         sent = attrs @ [Send key message]
     in
    (case send w key message of
       Inl e \<Rightarrow> (Inl e, sent)
     | Inr response \<Rightarrow>
         (Inr (JObj [(''status'', JStr ''success''),
                     (''code'', JInt (status_code response))]),
          sent @
          [LogInfo (''SendGrid response: '' @ py_str w (JInt (status_code response))),
           SetAttribute ''email.status'' (JStr ''success''),
           SetStatus StatusOK]))))))))))))"

text \<open>
  The handler (lines 50--85). The body is parsed before the span is opened and outside
  the \<^verbatim>\<open>try\<close>, so an exception of the parser goes through. Inside the span every
  exception of the body is caught, logged, put on the span and turned into an
  \<^verbatim>\<open>HTTPException\<close> with status code 500.
\<close>

definition email :: "world \<Rightarrow> request \<Rightarrow> outcome \<times> event list" where
  "email w request =
    (case json_loads w (body request) of
       Inl e \<Rightarrow> (Raise e, [])
     | Inr message_data \<Rightarrow>
        (let opened = [LogInfo (''Received contact form data: '' @ py_str w message_data),
                       StartSpan ''send_email'']
         in
         case email_try w message_data of
           (Inr v, evs) \<Rightarrow> (Return v, opened @ evs @ [EndSpan])
         | (Inl e, evs) \<Rightarrow>
             (RaiseHTTPException 500 (''SendGrid Error: '' @ str_exn w e),
              opened @ evs @
              [LogError ''Error sending email'',
               SetAttribute ''email.status'' (JStr ''error''),
               SetAttribute ''email.error'' (JStr (str_exn w e)),
               SetStatus (StatusERROR (str_exn w e)),
               EndSpan])))"

section \<open>Concrete runs\<close>

text \<open>
  Four request bodies and three worlds on which the handler is evaluated below: a
  complete submission, one whose \<^verbatim>\<open>email\<close> is the plain string \<^verbatim>\<open>ada\<close>, one without \<^verbatim>\<open>subject\<close>,
  and a body that is not JSON; a provider that accepts every message with status code
  202, one that refuses every message, and a mail library whose constructor rejects
  every message. \<open>demo_repr\<close> tabulates \<^verbatim>\<open>repr\<close> on the values these runs format, and
  \<open>demo_ReplyTo\<close> the library's parse on the two strings they assign: one with an \<^verbatim>\<open>@\<close> is
  read as an address, one without as a display name.
\<close>

definition demo_data :: json where
  "demo_data =
     JObj [(''name'', JStr ''Ada''), (''email'', JStr ''ada@example.org''),
           (''subject'', JStr ''Hello''), (''message'', JStr ''Hi there'')]"

definition plain_data :: json where
  "plain_data =
     JObj [(''name'', JStr ''Ada''), (''email'', JStr ''ada''),
           (''subject'', JStr ''Hello''), (''message'', JStr ''Hi there'')]"

definition partial_data :: json where
  "partial_data =
     JObj [(''name'', JStr ''Ada''), (''email'', JStr ''ada@example.org''),
           (''message'', JStr ''Hi there'')]"

definition demo_request :: request where
  \<open>demo_request = \<lparr>body =
     ''{"name": "Ada", "email": "ada@example.org", "subject": "Hello", "message": "Hi there"}''\<rparr>\<close>

definition plain_request :: request where
  \<open>plain_request = \<lparr>body =
     ''{"name": "Ada", "email": "ada", "subject": "Hello", "message": "Hi there"}''\<rparr>\<close>

definition partial_request :: request where
  \<open>partial_request = \<lparr>body =
     ''{"name": "Ada", "email": "ada@example.org", "message": "Hi there"}''\<rparr>\<close>

definition broken_request :: request where
  "broken_request = \<lparr>body = ''name=Ada''\<rparr>"

definition demo_loads :: "string \<Rightarrow> py_exception + json" where
  "demo_loads s =
     (if s = body demo_request then Inr demo_data
      else if s = body plain_request then Inr plain_data
      else if s = body partial_request then Inr partial_data
      else Inl (OtherException ''Expecting value: line 1 column 1 (char 0)''))"

definition demo_repr :: "json \<Rightarrow> string" where
  "demo_repr v =
     (if v = JInt 202 then ''202''
      else if v = demo_data then
        ''{'name': 'Ada', 'email': 'ada@example.org', 'subject': 'Hello', 'message': 'Hi there'}''
      else if v = plain_data then
        ''{'name': 'Ada', 'email': 'ada', 'subject': 'Hello', 'message': 'Hi there'}''
      else if v = partial_data then
        ''{'name': 'Ada', 'email': 'ada@example.org', 'message': 'Hi there'}''
      else [])"

definition demo_ReplyTo :: "string \<Rightarrow> recipient" where
  "demo_ReplyTo s =
     (if s = ''ada@example.org'' then \<lparr>address = Some s, display_name = None\<rparr>
      else if s = ''ada'' then \<lparr>address = None, display_name = Some s\<rparr>
      else \<lparr>address = None, display_name = None\<rparr>)"

definition demo_environ :: "string \<Rightarrow> string option" where
  "demo_environ =
     map_of [(''SENDGRID_TO_EMAIL'', ''owner@example.org''),
             (''SENDGRID_FROM_EMAIL'', ''noreply@example.org''),
             (''SENDGRID_API_KEY'', ''SG.demo'')]"

definition demo_world :: world where
  "demo_world =
     \<lparr>environ = demo_environ, json_loads = demo_loads, py_repr = demo_repr,
      Mail_init = (\<lambda>m. None), ReplyTo_init = demo_ReplyTo,
      send = (\<lambda>k m. Inr \<lparr>status_code = 202\<rparr>)\<rparr>"

definition rejecting_world :: world where
  "rejecting_world =
     demo_world\<lparr>Mail_init := (\<lambda>m. Some (OtherException ''message rejected''))\<rparr>"

definition refusing_world :: world where
  "refusing_world =
     demo_world\<lparr>send := (\<lambda>k m. Inl (OtherException ''HTTP Error 401: Unauthorized''))\<rparr>"

definition demo_mail :: mail where
  "demo_mail =
     \<lparr>to_emails = Some ''owner@example.org'',
      from_email = Some ''noreply@example.org'',
      subject = JStr ''Hello'',
      html_content = ''Hi there<br />From: Ada'',
      reply_to = Some (Parsed \<lparr>address = Some ''ada@example.org'', display_name = None\<rparr>)\<rparr>"

definition plain_mail :: mail where
  "plain_mail =
     demo_mail\<lparr>reply_to := Some (Parsed \<lparr>address = None, display_name = Some ''ada''\<rparr>)\<rparr>"

section \<open>The paths through the handler\<close>

lemmas demo_defs =
  demo_data_def plain_data_def partial_data_def demo_request_def plain_request_def
  partial_request_def broken_request_def demo_loads_def demo_repr_def demo_ReplyTo_def
  demo_environ_def demo_world_def refusing_world_def rejecting_world_def demo_mail_def
  plain_mail_def

lemma repr_str_fields:
  "repr_str w ''name'' = quote ''name''" "repr_str w ''email'' = quote ''email''"
  "repr_str w ''subject'' = quote ''subject''" "repr_str w ''message'' = quote ''message''"
  by (simp_all add: repr_str_def plain_def)

lemma py_str_JStr: "py_str w (JStr s) = s"
  by (simp add: py_str_def)

lemma set_reply_to_JStr: "set_reply_to w (JStr s) = Parsed (ReplyTo_init w s)"
  by (simp add: set_reply_to_def)

lemma set_reply_to_environ: "set_reply_to (w\<lparr>environ := f\<rparr>) v = set_reply_to w v"
  by (cases v) (simp_all add: set_reply_to_def)

text \<open>With the four fields there and the constructor content, the provider decides.\<close>

lemma email_try_fields:
  assumes "getitem md ''subject'' = Inr s" and "getitem md ''email'' = Inr a"
    and "getitem md ''message'' = Inr b" and "getitem md ''name'' = Inr n"
    and "m = \<lparr>to_emails = environ w ''SENDGRID_TO_EMAIL'',
              from_email = environ w ''SENDGRID_FROM_EMAIL'',
              subject = s,
              html_content = py_str w b @ ''<br />From: '' @ py_str w n,
              reply_to = Some (set_reply_to w a)\<rparr>"
    and "Mail_init w (m\<lparr>reply_to := None\<rparr>) = None"
    and "k = environ w ''SENDGRID_API_KEY''"
  shows "email_try w md =
    (case send w k m of
       Inl e \<Rightarrow>
         (Inl e, [SetAttribute ''email.subject'' s, SetAttribute ''email.from'' a, Send k m])
     | Inr r \<Rightarrow>
         (Inr (JObj [(''status'', JStr ''success''), (''code'', JInt (status_code r))]),
          [SetAttribute ''email.subject'' s, SetAttribute ''email.from'' a, Send k m,
           LogInfo (''SendGrid response: '' @ py_str w (JInt (status_code r))),
           SetAttribute ''email.status'' (JStr ''success''),
           SetStatus StatusOK]))"
  using assms by (simp add: email_try_def Let_def split: sum.splits)

text \<open>A provider call in the trace tells how the run got there.\<close>

lemma email_try_Send:
  assumes "Send k m \<in> set (snd (email_try w md))"
  shows "\<exists>s a b n. getitem md ''subject'' = Inr s \<and> getitem md ''email'' = Inr a
      \<and> getitem md ''message'' = Inr b \<and> getitem md ''name'' = Inr n
      \<and> m = \<lparr>to_emails = environ w ''SENDGRID_TO_EMAIL'',
              from_email = environ w ''SENDGRID_FROM_EMAIL'',
              subject = s,
              html_content = py_str w b @ ''<br />From: '' @ py_str w n,
              reply_to = Some (set_reply_to w a)\<rparr>
      \<and> Mail_init w (m\<lparr>reply_to := None\<rparr>) = None
      \<and> k = environ w ''SENDGRID_API_KEY''"
  using assms
  by (auto simp add: email_try_def Let_def split: sum.splits option.splits)

lemma email_caught:
  assumes "json_loads w (body req) = Inr md" and "fst (email_try w md) = Inl e"
  shows "email w req =
    (RaiseHTTPException 500 (''SendGrid Error: '' @ str_exn w e),
     [LogInfo (''Received contact form data: '' @ py_str w md), StartSpan ''send_email''] @
     snd (email_try w md) @
     [LogError ''Error sending email'',
      SetAttribute ''email.status'' (JStr ''error''),
      SetAttribute ''email.error'' (JStr (str_exn w e)),
      SetStatus (StatusERROR (str_exn w e)),
      EndSpan])"
  using assms by (cases "email_try w md") (simp add: email_def)

lemma email_returned:
  assumes "json_loads w (body req) = Inr md" and "fst (email_try w md) = Inr v"
  shows "email w req =
    (Return v,
     [LogInfo (''Received contact form data: '' @ py_str w md), StartSpan ''send_email''] @
     snd (email_try w md) @ [EndSpan])"
  using assms by (cases "email_try w md") (simp add: email_def)

lemma email_unparsed:
  assumes "json_loads w (body req) = Inl e"
  shows "email w req = (Raise e, [])"
  using assms by (simp add: email_def)

lemma email_Send:
  assumes "Send k m \<in> set (snd (email w req))"
  shows "\<exists>md. json_loads w (body req) = Inr md \<and> Send k m \<in> set (snd (email_try w md))"
proof (cases "json_loads w (body req)")
  case (Inl e)
  with assms show ?thesis by (simp add: email_unparsed)
next
  case parsed: (Inr md)
  show ?thesis
  proof (cases "fst (email_try w md)")
    case (Inl e)
    with parsed assms show ?thesis by (simp add: email_caught)
  next
    case (Inr v)
    with parsed assms show ?thesis by (simp add: email_returned)
  qed
qed

lemma email_try_once: "length (filter is_Send (snd (email_try w md))) \<le> 1"
  by (simp add: email_try_def Let_def split: sum.splits option.splits)

lemma is_Send_iff: "is_Send ev \<longleftrightarrow> (\<exists>k m. ev = Send k m)"
  by (cases ev) simp_all

lemma email_try_missing:
  assumes "k \<in> {''name'', ''email'', ''subject'', ''message''}" and "map_of kvs k = None"
  shows "\<exists>k'. k' \<in> {''name'', ''email'', ''subject'', ''message''} \<and> map_of kvs k' = None
      \<and> fst (email_try w (JObj kvs)) = Inl (KeyError k')"
proof (cases "map_of kvs ''subject''")
  case None
  then show ?thesis by (auto simp add: email_try_def)
next
  case s: (Some s)
  show ?thesis
  proof (cases "map_of kvs ''email''")
    case None
    with s show ?thesis by (auto simp add: email_try_def)
  next
    case a: (Some a)
    show ?thesis
    proof (cases "map_of kvs ''message''")
      case None
      with s a show ?thesis by (auto simp add: email_try_def Let_def)
    next
      case b: (Some b)
      with assms s a have "map_of kvs ''name'' = None" by auto
      with s a b show ?thesis by (auto simp add: email_try_def Let_def)
    qed
  qed
qed

lemma email_events:
  assumes "json_loads w (body req) = Inr md"
  shows "\<exists>closing. snd (email w req) =
      [LogInfo (''Received contact form data: '' @ py_str w md), StartSpan ''send_email''] @
      snd (email_try w md) @ closing \<and> filter is_Send closing = []"
proof (cases "fst (email_try w md)")
  case (Inl e)
  with assms show ?thesis by (simp add: email_caught)
next
  case (Inr v)
  with assms show ?thesis by (simp add: email_returned)
qed

section \<open>The claims\<close>

text \<open>
  C1. A request whose body parses to an object holding the four string fields
  \<^verbatim>\<open>name\<close>, \<^verbatim>\<open>email\<close>, \<^verbatim>\<open>subject\<close>, \<^verbatim>\<open>message\<close>, and for which the provider's send call on the
  message built from them returns a response \<open>r\<close>, is answered with HTTP 200 and the body
  \<^verbatim>\<open>{"status": "success", "code": c}\<close>, \<open>c\<close> being the status code of \<open>r\<close>. (The send call is
  reached, so the constructor of the message has not raised.)
\<close>

theorem email_success:
  assumes "json_loads w (body req) = Inr (JObj kvs)"
    and "map_of kvs ''name'' = Some (JStr n)"
    and "map_of kvs ''email'' = Some (JStr a)"
    and "map_of kvs ''subject'' = Some (JStr s)"
    and "map_of kvs ''message'' = Some (JStr b)"
    and "m = \<lparr>to_emails = environ w ''SENDGRID_TO_EMAIL'',
              from_email = environ w ''SENDGRID_FROM_EMAIL'',
              subject = JStr s,
              html_content = b @ ''<br />From: '' @ n,
              reply_to = Some (Parsed (ReplyTo_init w a))\<rparr>"
    and "Mail_init w (m\<lparr>reply_to := None\<rparr>) = None"
    and "send w (environ w ''SENDGRID_API_KEY'') m = Inr r"
  shows "fst (email w req) =
           Return (JObj [(''status'', JStr ''success''), (''code'', JInt (status_code r))])
       \<and> http_response (fst (email w req)) =
           Some (200, JObj [(''status'', JStr ''success''), (''code'', JInt (status_code r))])"
proof -
  let ?md = "JObj kvs"
  have "email_try w ?md =
    (case send w (environ w ''SENDGRID_API_KEY'') m of
       Inl e \<Rightarrow>
         (Inl e, [SetAttribute ''email.subject'' (JStr s), SetAttribute ''email.from'' (JStr a),
                  Send (environ w ''SENDGRID_API_KEY'') m])
     | Inr r \<Rightarrow>
         (Inr (JObj [(''status'', JStr ''success''), (''code'', JInt (status_code r))]),
          [SetAttribute ''email.subject'' (JStr s), SetAttribute ''email.from'' (JStr a),
           Send (environ w ''SENDGRID_API_KEY'') m,
           LogInfo (''SendGrid response: '' @ py_str w (JInt (status_code r))),
           SetAttribute ''email.status'' (JStr ''success''),
           SetStatus StatusOK]))"
  proof (rule email_try_fields [where s = "JStr s" and a = "JStr a" and b = "JStr b"
        and n = "JStr n"])
    show "m = \<lparr>to_emails = environ w ''SENDGRID_TO_EMAIL'',
              from_email = environ w ''SENDGRID_FROM_EMAIL'',
              subject = JStr s,
              html_content = py_str w (JStr b) @ ''<br />From: '' @ py_str w (JStr n),
              reply_to = Some (set_reply_to w (JStr a))\<rparr>"
      using assms(6) by (simp add: py_str_JStr set_reply_to_JStr)
  qed (use assms in simp_all)
  with assms(8) have "fst (email_try w ?md) =
      Inr (JObj [(''status'', JStr ''success''), (''code'', JInt (status_code r))])"
    by simp
  with assms(1) show ?thesis by (simp add: email_returned)
qed

theorem email_success_witness:
  "fst (email demo_world demo_request) =
     Return (JObj [(''status'', JStr ''success''), (''code'', JInt 202)])
   \<and> http_response (fst (email demo_world demo_request)) =
     Some (200, JObj [(''status'', JStr ''success''), (''code'', JInt 202)])"
  using email_success [of demo_world demo_request
      "[(''name'', JStr ''Ada''), (''email'', JStr ''ada@example.org''),
        (''subject'', JStr ''Hello''), (''message'', JStr ''Hi there'')]"
      "''Ada''" "''ada@example.org''" "''Hello''" "''Hi there''" demo_mail
      "\<lparr>status_code = 202\<rparr>"]
  by (simp add: demo_defs)

text \<open>
  C2. Whichever step inside the \<^verbatim>\<open>try\<close> raises an exception \<open>e\<close> first, be it one of the
  lookups of \<^verbatim>\<open>subject\<close>, \<^verbatim>\<open>email\<close>, \<^verbatim>\<open>message\<close>, \<^verbatim>\<open>name\<close>, the constructor of the message, or the
  provider's send call, the handler catches it and raises \<^verbatim>\<open>HTTPException(500)\<close> with the
  detail \<^verbatim>\<open>"SendGrid Error: " + str(e)\<close>: the answer is a 500 whose detail contains the text
  of \<open>e\<close> and whose body has no \<^verbatim>\<open>status\<close> of \<^verbatim>\<open>"success"\<close>.
\<close>

theorem email_failure:
  assumes "json_loads w (body req) = Inr md"
    and "m = \<lparr>to_emails = environ w ''SENDGRID_TO_EMAIL'',
              from_email = environ w ''SENDGRID_FROM_EMAIL'',
              subject = s,
              html_content = py_str w b @ ''<br />From: '' @ py_str w n,
              reply_to = Some (set_reply_to w a)\<rparr>"
    and "getitem md ''subject'' = Inl e
       \<or> getitem md ''subject'' = Inr s \<and> getitem md ''email'' = Inl e
       \<or> getitem md ''subject'' = Inr s \<and> getitem md ''email'' = Inr a
           \<and> getitem md ''message'' = Inl e
       \<or> getitem md ''subject'' = Inr s \<and> getitem md ''email'' = Inr a
           \<and> getitem md ''message'' = Inr b \<and> getitem md ''name'' = Inl e
       \<or> getitem md ''subject'' = Inr s \<and> getitem md ''email'' = Inr a
           \<and> getitem md ''message'' = Inr b \<and> getitem md ''name'' = Inr n
           \<and> Mail_init w (m\<lparr>reply_to := None\<rparr>) = Some e
       \<or> getitem md ''subject'' = Inr s \<and> getitem md ''email'' = Inr a
           \<and> getitem md ''message'' = Inr b \<and> getitem md ''name'' = Inr n
           \<and> Mail_init w (m\<lparr>reply_to := None\<rparr>) = None
           \<and> send w (environ w ''SENDGRID_API_KEY'') m = Inl e"
  shows "fst (email w req) = RaiseHTTPException 500 (''SendGrid Error: '' @ str_exn w e)
       \<and> http_response (fst (email w req)) =
           Some (500, JObj [(''detail'', JStr (''SendGrid Error: '' @ str_exn w e))])
       \<and> sublist (str_exn w e) (''SendGrid Error: '' @ str_exn w e)
       \<and> getitem (JObj [(''detail'', JStr (''SendGrid Error: '' @ str_exn w e))]) ''status''
           \<noteq> Inr (JStr ''success'')"
proof -
  have "fst (email_try w md) = Inl e"
    using assms(3)
  proof (elim disjE conjE)
    assume "getitem md ''subject'' = Inl e"
    then show ?thesis by (simp add: email_try_def)
  next
    assume "getitem md ''subject'' = Inr s" and "getitem md ''email'' = Inl e"
    then show ?thesis by (simp add: email_try_def)
  next
    assume "getitem md ''subject'' = Inr s" and "getitem md ''email'' = Inr a"
      and "getitem md ''message'' = Inl e"
    then show ?thesis by (simp add: email_try_def Let_def)
  next
    assume "getitem md ''subject'' = Inr s" and "getitem md ''email'' = Inr a"
      and "getitem md ''message'' = Inr b" and "getitem md ''name'' = Inl e"
    then show ?thesis by (simp add: email_try_def Let_def)
  next
    assume "getitem md ''subject'' = Inr s" and "getitem md ''email'' = Inr a"
      and "getitem md ''message'' = Inr b" and "getitem md ''name'' = Inr n"
      and "Mail_init w (m\<lparr>reply_to := None\<rparr>) = Some e"
    with assms(2) show ?thesis by (simp add: email_try_def Let_def)
  next
    assume f: "getitem md ''subject'' = Inr s" "getitem md ''email'' = Inr a"
      "getitem md ''message'' = Inr b" "getitem md ''name'' = Inr n"
      and ok: "Mail_init w (m\<lparr>reply_to := None\<rparr>) = None"
      and refused: "send w (environ w ''SENDGRID_API_KEY'') m = Inl e"
    from refused show ?thesis
      unfolding email_try_fields [OF f assms(2) ok refl] by simp
  qed
  with assms(1)
  have "fst (email w req) = RaiseHTTPException 500 (''SendGrid Error: '' @ str_exn w e)"
    by (simp add: email_caught)
  moreover have "sublist (str_exn w e) (''SendGrid Error: '' @ str_exn w e)"
    by (rule sublist_append_leftI)
  ultimately show ?thesis by simp
qed

theorem email_failure_witness:
  "send refusing_world (Some ''SG.demo'') demo_mail =
       Inl (OtherException ''HTTP Error 401: Unauthorized'')
   \<and> http_response (fst (email refusing_world demo_request)) =
       Some (500, JObj [(''detail'', JStr ''SendGrid Error: HTTP Error 401: Unauthorized'')])
   \<and> Mail_init rejecting_world (demo_mail\<lparr>reply_to := None\<rparr>) =
       Some (OtherException ''message rejected'')
   \<and> http_response (fst (email rejecting_world demo_request)) =
       Some (500, JObj [(''detail'', JStr ''SendGrid Error: message rejected'')])
   \<and> getitem partial_data ''subject'' = Inl (KeyError ''subject'')
   \<and> http_response (fst (email demo_world partial_request)) =
       Some (500, JObj [(''detail'', JStr (''SendGrid Error: '' @ quote ''subject''))])"
proof -
  have refused: "send refusing_world (Some ''SG.demo'') demo_mail =
      Inl (OtherException ''HTTP Error 401: Unauthorized'')"
    by (simp add: demo_defs)
  have rejected: "Mail_init rejecting_world (demo_mail\<lparr>reply_to := None\<rparr>) =
      Some (OtherException ''message rejected'')"
    by (simp add: demo_defs)
  have missing: "getitem partial_data ''subject'' = Inl (KeyError ''subject'')"
    by (simp add: demo_defs)
  have provider: "http_response (fst (email refusing_world demo_request)) =
      Some (500, JObj [(''detail'', JStr ''SendGrid Error: HTTP Error 401: Unauthorized'')])"
    using email_failure [where w = refusing_world and req = demo_request and md = demo_data
        and m = demo_mail and s = "JStr ''Hello''" and a = "JStr ''ada@example.org''"
        and b = "JStr ''Hi there''" and n = "JStr ''Ada''"
        and e = "OtherException ''HTTP Error 401: Unauthorized''"]
    by (simp add: py_str_def set_reply_to_def demo_defs)
  have constructor: "http_response (fst (email rejecting_world demo_request)) =
      Some (500, JObj [(''detail'', JStr ''SendGrid Error: message rejected'')])"
    using email_failure [where w = rejecting_world and req = demo_request and md = demo_data
        and m = demo_mail and s = "JStr ''Hello''" and a = "JStr ''ada@example.org''"
        and b = "JStr ''Hi there''" and n = "JStr ''Ada''"
        and e = "OtherException ''message rejected''"]
    by (simp add: py_str_def set_reply_to_def demo_defs)
  have lookup: "http_response (fst (email demo_world partial_request)) =
      Some (500, JObj [(''detail'', JStr (''SendGrid Error: '' @ quote ''subject''))])"
    using email_failure [where w = demo_world and req = partial_request and md = partial_data
        and m = demo_mail and s = "JStr ''Hello''" and a = "JStr ''ada@example.org''"
        and b = "JStr ''Hi there''" and n = "JStr ''Ada''" and e = "KeyError ''subject''"]
    by (simp add: py_str_def set_reply_to_def repr_str_fields demo_defs)
  from refused rejected missing provider constructor lookup show ?thesis by simp
qed

text \<open>
  C3. For a submission with the four string fields whose message the library's
  constructor accepts, exactly one message is handed to the provider. Its recipient and
  sender are the configured ones (\<^verbatim>\<open>SENDGRID_TO_EMAIL\<close>, \<^verbatim>\<open>SENDGRID_FROM_EMAIL\<close>), its subject is
  the input's subject, and its HTML body is the message, then \<^verbatim>\<open><br />\<close>, then
  \<^verbatim>\<open>From: \<close> and the name; so the body ends with \<^verbatim>\<open>From: {name}\<close>.
\<close>

theorem outbound_email:
  assumes "json_loads w (body req) = Inr (JObj kvs)"
    and "map_of kvs ''name'' = Some (JStr n)"
    and "map_of kvs ''email'' = Some (JStr a)"
    and "map_of kvs ''subject'' = Some (JStr s)"
    and "map_of kvs ''message'' = Some (JStr b)"
    and "Mail_init w \<lparr>to_emails = environ w ''SENDGRID_TO_EMAIL'',
                      from_email = environ w ''SENDGRID_FROM_EMAIL'',
                      subject = JStr s,
                      html_content = b @ ''<br />From: '' @ n,
                      reply_to = None\<rparr> = None"
  shows "\<exists>k m. filter is_Send (snd (email w req)) = [Send k m]
       \<and> to_emails m = environ w ''SENDGRID_TO_EMAIL''
       \<and> from_email m = environ w ''SENDGRID_FROM_EMAIL''
       \<and> subject m = JStr s
       \<and> html_content m = b @ ''<br />From: '' @ n
       \<and> suffix (''From: '' @ n) (html_content m)"
proof -
  let ?k = "environ w ''SENDGRID_API_KEY''"
  let ?m = "\<lparr>to_emails = environ w ''SENDGRID_TO_EMAIL'',
             from_email = environ w ''SENDGRID_FROM_EMAIL'',
             subject = JStr s,
             html_content = b @ ''<br />From: '' @ n,
             reply_to = Some (Parsed (ReplyTo_init w a))\<rparr>"
  have tried: "filter is_Send (snd (email_try w (JObj kvs))) = [Send ?k ?m]"
    using assms(2-6)
    by (simp add: email_try_def Let_def py_str_JStr set_reply_to_JStr split: sum.splits)
  have "filter is_Send (snd (email w req)) = [Send ?k ?m]"
  proof (cases "fst (email_try w (JObj kvs))")
    case (Inl e)
    with assms(1) tried show ?thesis by (simp add: email_caught)
  next
    case (Inr v)
    with assms(1) tried show ?thesis by (simp add: email_returned)
  qed
  moreover have "suffix (''From: '' @ n) (b @ ''<br />From: '' @ n)"
    by (rule suffixI [where zs = "b @ ''<br />''"]) simp
  ultimately show ?thesis by simp
qed

theorem outbound_email_witness:
  "filter is_Send (snd (email demo_world demo_request)) = [Send (Some ''SG.demo'') demo_mail]
   \<and> to_emails demo_mail = Some ''owner@example.org''
   \<and> from_email demo_mail = Some ''noreply@example.org''
   \<and> subject demo_mail = JStr ''Hello''
   \<and> html_content demo_mail = ''Hi there<br />From: Ada''"
  using outbound_email [of demo_world demo_request
      "[(''name'', JStr ''Ada''), (''email'', JStr ''ada@example.org''),
        (''subject'', JStr ''Hello''), (''message'', JStr ''Hi there'')]"
      "''Ada''" "''ada@example.org''" "''Hello''" "''Hi there''"]
  by (simp add: email_def email_try_def py_str_def set_reply_to_def demo_defs)

text \<open>
  A submitter whose \<^verbatim>\<open>email\<close> field is the plain string \<^verbatim>\<open>ada\<close>: the message is handed to the
  provider, and the library has read the field as a display name, so the message has no
  reply-to address at all.
\<close>

theorem reply_to_plain_counterexample:
  "json_loads demo_world (body plain_request) = Inr plain_data
   \<and> getitem plain_data ''email'' = Inr (JStr ''ada'')
   \<and> Send (Some ''SG.demo'') plain_mail \<in> set (snd (email demo_world plain_request))
   \<and> reply_to plain_mail = Some (Parsed \<lparr>address = None, display_name = Some ''ada''\<rparr>)
   \<and> reply_to_address plain_mail = None"
  by (simp add: email_def email_try_def py_str_def set_reply_to_def demo_defs)

text \<open>
  C4, as the code has it. Whatever the configured sender address is, the handler assigns
  the \<^verbatim>\<open>email\<close> field of the request body to the \<^verbatim>\<open>reply_to\<close> of the message it hands to the
  provider. The library parses an assigned string, so the reply-to address of the
  message is the address the library reads in that field: the field itself when the
  library reads all of it as an address, and none when the field is not a string.
\<close>

theorem reply_to_is_submitter:
  assumes "Send k m \<in> set (snd (email
              (w\<lparr>environ := (environ w)(''SENDGRID_FROM_EMAIL'' := sender)\<rparr>) req))"
  shows "\<exists>kvs a. json_loads w (body req) = Inr (JObj kvs) \<and> map_of kvs ''email'' = Some a
       \<and> reply_to m = Some (set_reply_to w a)
       \<and> reply_to_address m = (case a of JStr s \<Rightarrow> address (ReplyTo_init w s) | _ \<Rightarrow> None)
       \<and> (\<forall>s. a = JStr s \<and> address (ReplyTo_init w s) = Some s
              \<longrightarrow> reply_to_address m = Some s)"
proof -
  let ?w = "w\<lparr>environ := (environ w)(''SENDGRID_FROM_EMAIL'' := sender)\<rparr>"
  from email_Send [OF assms] obtain md where parsed: "json_loads w (body req) = Inr md"
    and sent: "Send k m \<in> set (snd (email_try ?w md))" by auto
  from email_try_Send [OF sent] obtain a where field: "getitem md ''email'' = Inr a"
    and stored: "reply_to m = Some (set_reply_to w a)"
    by (auto simp add: set_reply_to_environ)
  from field obtain kvs where "md = JObj kvs" and "map_of kvs ''email'' = Some a"
    by (cases md) (auto split: option.splits)
  moreover from stored
  have "reply_to_address m = (case a of JStr s \<Rightarrow> address (ReplyTo_init w s) | _ \<Rightarrow> None)"
    by (simp add: set_reply_to_def split: json.splits)
  ultimately show ?thesis using parsed stored by auto
qed

theorem reply_to_is_submitter_witness:
  "Send (Some ''SG.demo'') (demo_mail\<lparr>from_email := Some ''ada@example.org''\<rparr>)
     \<in> set (snd (email (demo_world\<lparr>environ :=
          (environ demo_world)(''SENDGRID_FROM_EMAIL'' := Some ''ada@example.org'')\<rparr>)
          demo_request))
   \<and> Send (Some ''SG.demo'') (demo_mail\<lparr>from_email := None\<rparr>)
     \<in> set (snd (email (demo_world\<lparr>environ :=
          (environ demo_world)(''SENDGRID_FROM_EMAIL'' := None)\<rparr>) demo_request))
   \<and> getitem demo_data ''email'' = Inr (JStr ''ada@example.org'')
   \<and> reply_to_address (demo_mail\<lparr>from_email := None\<rparr>) = Some ''ada@example.org''"
proof -
  have sent: "Send (Some ''SG.demo'') (demo_mail\<lparr>from_email := None\<rparr>)
     \<in> set (snd (email (demo_world\<lparr>environ :=
          (environ demo_world)(''SENDGRID_FROM_EMAIL'' := None)\<rparr>) demo_request))"
    by (simp add: email_def email_try_def py_str_def set_reply_to_def demo_defs)
  have other: "Send (Some ''SG.demo'') (demo_mail\<lparr>from_email := Some ''ada@example.org''\<rparr>)
     \<in> set (snd (email (demo_world\<lparr>environ :=
          (environ demo_world)(''SENDGRID_FROM_EMAIL'' := Some ''ada@example.org'')\<rparr>)
          demo_request))"
    by (simp add: email_def email_try_def py_str_def set_reply_to_def demo_defs)
  from reply_to_is_submitter [OF sent] sent other show ?thesis
    by (simp add: set_reply_to_def demo_defs)
qed

text \<open>
  C5. When the body parses to an object that lacks one of the four fields, the handler
  answers with the failure of the lookup (a 500 naming a missing key) and the provider is
  never called: every lookup comes before the send call.
\<close>

theorem missing_field_no_dispatch:
  assumes "json_loads w (body req) = Inr (JObj kvs)"
    and "k \<in> {''name'', ''email'', ''subject'', ''message''}"
    and "map_of kvs k = None"
  shows "(\<exists>k'. k' \<in> {''name'', ''email'', ''subject'', ''message''} \<and> map_of kvs k' = None
          \<and> fst (email w req) = RaiseHTTPException 500 (''SendGrid Error: '' @ quote k'))
       \<and> filter is_Send (snd (email w req)) = []"
proof
  from email_try_missing [OF assms(2,3)] obtain k' where
    "k' \<in> {''name'', ''email'', ''subject'', ''message''}" and "map_of kvs k' = None"
    and "fst (email_try w (JObj kvs)) = Inl (KeyError k')" by blast
  moreover from this(1) have "str_exn w (KeyError k') = quote k'"
    by (auto simp add: repr_str_fields)
  moreover note assms(1)
  ultimately have "k' \<in> {''name'', ''email'', ''subject'', ''message''} \<and> map_of kvs k' = None
      \<and> fst (email w req) = RaiseHTTPException 500 (''SendGrid Error: '' @ quote k')"
    by (simp only: email_caught fst_conv simp_thms)
  then show "\<exists>k'. k' \<in> {''name'', ''email'', ''subject'', ''message''}
      \<and> map_of kvs k' = None
      \<and> fst (email w req) = RaiseHTTPException 500 (''SendGrid Error: '' @ quote k')"
    by (rule exI)
next
  have "\<not> is_Send ev" if "ev \<in> set (snd (email w req))" for ev
  proof
    assume "is_Send ev"
    then obtain key m where "ev = Send key m" by (auto simp add: is_Send_iff)
    with that have "Send key m \<in> set (snd (email w req))" by simp
    from email_Send [OF this] assms(1) have "Send key m \<in> set (snd (email_try w (JObj kvs)))"
      by simp
    from email_try_Send [OF this] have "map_of kvs ''name'' \<noteq> None"
      and "map_of kvs ''email'' \<noteq> None" and "map_of kvs ''subject'' \<noteq> None"
      and "map_of kvs ''message'' \<noteq> None"
      by (auto split: option.splits)
    with assms(2,3) show False by auto
  qed
  then show "filter is_Send (snd (email w req)) = []" by (simp add: filter_empty_conv)
qed

theorem missing_field_no_dispatch_witness:
  "json_loads demo_world (body partial_request) = Inr partial_data
   \<and> map_of [(''name'', JStr ''Ada''), (''email'', JStr ''ada@example.org''),
             (''message'', JStr ''Hi there'')] ''subject'' = None
   \<and> fst (email demo_world partial_request) =
       RaiseHTTPException 500 (''SendGrid Error: '' @ quote ''subject'')
   \<and> filter is_Send (snd (email demo_world partial_request)) = []"
  using missing_field_no_dispatch [of demo_world partial_request
      "[(''name'', JStr ''Ada''), (''email'', JStr ''ada@example.org''),
        (''message'', JStr ''Hi there'')]" "''subject''"]
  by (simp add: email_def email_try_def py_str_def repr_str_fields demo_defs)

text \<open>
  The span of a successful run gets three attributes, the subject, the sender's address
  and the status; the provider's status code 202 is returned and logged, and is not among
  them.
\<close>

theorem span_response_code_counterexample:
  "fst (email demo_world demo_request) =
     Return (JObj [(''status'', JStr ''success''), (''code'', JInt 202)])
   \<and> span_attributes (snd (email demo_world demo_request)) =
     [(''email.subject'', JStr ''Hello''), (''email.from'', JStr ''ada@example.org''),
      (''email.status'', JStr ''success'')]
   \<and> JInt 202 \<notin> snd ` set (span_attributes (snd (email demo_world demo_request)))"
  by (simp add: email_def email_try_def py_str_def set_reply_to_def demo_defs)

text \<open>
  C6, as the code has it. For a request that reaches the provider: before the send call
  the span gets the attributes \<^verbatim>\<open>email.subject\<close> and \<^verbatim>\<open>email.from\<close>; after a send call that
  returns, the response code is logged and the span gets \<^verbatim>\<open>email.status = "success"\<close> and
  the status OK; after a send call that raises \<open>e\<close>, the span gets
  \<^verbatim>\<open>email.status = "error"\<close>, \<^verbatim>\<open>email.error = str(e)\<close> and the status ERROR with \<^verbatim>\<open>str(e)\<close>.
\<close>

theorem span_trace:
  assumes "json_loads w (body req) = Inr md"
    and "Send k m \<in> set (snd (email w req))"
  shows "\<exists>s a. getitem md ''subject'' = Inr s \<and> getitem md ''email'' = Inr a \<and>
    snd (email w req) =
      [LogInfo (''Received contact form data: '' @ py_str w md),
       StartSpan ''send_email'',
       SetAttribute ''email.subject'' s,
       SetAttribute ''email.from'' a,
       Send k m] @
      (case send w k m of
         Inr r \<Rightarrow>
           [LogInfo (''SendGrid response: '' @ py_str w (JInt (status_code r))),
            SetAttribute ''email.status'' (JStr ''success''),
            SetStatus StatusOK,
            EndSpan]
       | Inl e \<Rightarrow>
           [LogError ''Error sending email'',
            SetAttribute ''email.status'' (JStr ''error''),
            SetAttribute ''email.error'' (JStr (str_exn w e)),
            SetStatus (StatusERROR (str_exn w e)),
            EndSpan])"
proof -
  from email_Send [OF assms(2)] assms(1) have sent: "Send k m \<in> set (snd (email_try w md))"
    by simp
  from email_try_Send [OF sent] obtain s a b n where
    f: "getitem md ''subject'' = Inr s" "getitem md ''email'' = Inr a"
       "getitem md ''message'' = Inr b" "getitem md ''name'' = Inr n"
    and m: "m = \<lparr>to_emails = environ w ''SENDGRID_TO_EMAIL'',
              from_email = environ w ''SENDGRID_FROM_EMAIL'',
              subject = s,
              html_content = py_str w b @ ''<br />From: '' @ py_str w n,
              reply_to = Some (set_reply_to w a)\<rparr>"
    and ok: "Mail_init w (m\<lparr>reply_to := None\<rparr>) = None"
    and k: "k = environ w ''SENDGRID_API_KEY''"
    by blast
  note run = email_try_fields [OF f m ok k]
  have "snd (email w req) =
      [LogInfo (''Received contact form data: '' @ py_str w md),
       StartSpan ''send_email'',
       SetAttribute ''email.subject'' s,
       SetAttribute ''email.from'' a,
       Send k m] @
      (case send w k m of
         Inr r \<Rightarrow>
           [LogInfo (''SendGrid response: '' @ py_str w (JInt (status_code r))),
            SetAttribute ''email.status'' (JStr ''success''),
            SetStatus StatusOK,
            EndSpan]
       | Inl e \<Rightarrow>
           [LogError ''Error sending email'',
            SetAttribute ''email.status'' (JStr ''error''),
            SetAttribute ''email.error'' (JStr (str_exn w e)),
            SetStatus (StatusERROR (str_exn w e)),
            EndSpan])"
  proof (cases "send w k m")
    case (Inl e)
    with run have "email_try w md =
        (Inl e, [SetAttribute ''email.subject'' s, SetAttribute ''email.from'' a, Send k m])"
      by simp
    with assms(1) Inl show ?thesis by (simp add: email_caught)
  next
    case (Inr r)
    with run have "email_try w md =
        (Inr (JObj [(''status'', JStr ''success''), (''code'', JInt (status_code r))]),
         [SetAttribute ''email.subject'' s, SetAttribute ''email.from'' a, Send k m,
          LogInfo (''SendGrid response: '' @ py_str w (JInt (status_code r))),
          SetAttribute ''email.status'' (JStr ''success''),
          SetStatus StatusOK])"
      by simp
    with assms(1) Inr show ?thesis by (simp add: email_returned)
  qed
  with f show ?thesis by blast
qed

theorem span_trace_witness:
  "json_loads demo_world (body demo_request) = Inr demo_data
   \<and> Send (Some ''SG.demo'') demo_mail \<in> set (snd (email demo_world demo_request))
   \<and> snd (email demo_world demo_request) =
      [LogInfo (''Received contact form data: '' @
         ''{'name': 'Ada', 'email': 'ada@example.org', 'subject': 'Hello', 'message': 'Hi there'}''),
       StartSpan ''send_email'',
       SetAttribute ''email.subject'' (JStr ''Hello''),
       SetAttribute ''email.from'' (JStr ''ada@example.org''),
       Send (Some ''SG.demo'') demo_mail,
       LogInfo ''SendGrid response: 202'',
       SetAttribute ''email.status'' (JStr ''success''),
       SetStatus StatusOK,
       EndSpan]"
proof -
  have parsed: "json_loads demo_world (body demo_request) = Inr demo_data"
    by (simp add: demo_defs)
  have sent: "Send (Some ''SG.demo'') demo_mail \<in> set (snd (email demo_world demo_request))"
    by (simp add: email_def email_try_def py_str_def set_reply_to_def demo_defs)
  have accepted: "send demo_world (Some ''SG.demo'') demo_mail = Inr \<lparr>status_code = 202\<rparr>"
    by (simp add: demo_defs)
  have repr: "py_str demo_world demo_data =
      ''{'name': 'Ada', 'email': 'ada@example.org', 'subject': 'Hello', 'message': 'Hi there'}''"
    "py_str demo_world (JInt 202) = ''202''"
    by (simp_all add: py_str_def demo_defs)
  have fields: "getitem demo_data ''subject'' = Inr (JStr ''Hello'')"
    "getitem demo_data ''email'' = Inr (JStr ''ada@example.org'')"
    by (simp_all add: demo_defs)
  from span_trace [OF parsed sent] parsed sent show ?thesis
    by (simp add: accepted repr fields)
qed

text \<open>
  C7. In one call of the handler the provider's send operation is invoked at most once.
\<close>

theorem send_at_most_once: "length (filter is_Send (snd (email w req))) \<le> 1"
proof (cases "json_loads w (body req)")
  case (Inl e)
  then show ?thesis by (simp add: email_unparsed)
next
  case (Inr md)
  from email_events [OF this] obtain closing where
    "snd (email w req) =
      [LogInfo (''Received contact form data: '' @ py_str w md), StartSpan ''send_email''] @
      snd (email_try w md) @ closing" and "filter is_Send closing = []" by blast
  then show ?thesis using email_try_once [of w md] by simp
qed

theorem send_at_most_once_witness:
  "length (filter is_Send (snd (email refusing_world demo_request))) = 1
   \<and> length (filter is_Send (snd (email demo_world demo_request))) = 1
   \<and> length (filter is_Send (snd (email demo_world partial_request))) = 0"
  using send_at_most_once [of refusing_world demo_request]
  by (simp add: email_def email_try_def py_str_def set_reply_to_def demo_defs)

text \<open>
  C8. Every exception caught inside the span, a failed lookup of a missing field
  included, is answered with a 500 whose detail begins with \<^verbatim>\<open>SendGrid Error: \<close>.
\<close>

theorem caught_detail_prefix:
  assumes "json_loads w (body req) = Inr md" and "fst (email_try w md) = Inl e"
  shows "\<exists>d. fst (email w req) = RaiseHTTPException 500 d
       \<and> prefix ''SendGrid Error: '' d
       \<and> http_response (fst (email w req)) = Some (500, JObj [(''detail'', JStr d)])"
  using assms by (simp add: email_caught)

theorem caught_detail_prefix_witness:
  "json_loads demo_world (body partial_request) = Inr partial_data
   \<and> fst (email_try demo_world partial_data) = Inl (KeyError ''subject'')
   \<and> fst (email demo_world partial_request) =
       RaiseHTTPException 500 (''SendGrid Error: '' @ quote ''subject'')
   \<and> prefix ''SendGrid Error: '' (''SendGrid Error: '' @ quote ''subject'')"
proof -
  have parsed: "json_loads demo_world (body partial_request) = Inr partial_data"
    by (simp add: demo_defs)
  have raised: "fst (email_try demo_world partial_data) = Inl (KeyError ''subject'')"
    by (simp add: email_try_def demo_defs)
  from caught_detail_prefix [OF parsed raised] parsed raised show ?thesis
    by (simp add: email_caught repr_str_fields)
qed

text \<open>
  C9. When the body is not parseable as JSON, the parser's exception leaves the handler
  as it is: no span is opened, nothing is recorded, and the handler raises no
  \<^verbatim>\<open>HTTPException\<close>.
\<close>

theorem unparsed_body_propagates:
  assumes "json_loads w (body req) = Inl e"
  shows "email w req = (Raise e, [])
       \<and> StartSpan ''send_email'' \<notin> set (snd (email w req))
       \<and> span_attributes (snd (email w req)) = []
       \<and> http_response (fst (email w req)) = None"
  using assms by (simp add: email_unparsed)

theorem unparsed_body_propagates_witness:
  "json_loads demo_world (body broken_request) =
     Inl (OtherException ''Expecting value: line 1 column 1 (char 0)'')
   \<and> email demo_world broken_request =
     (Raise (OtherException ''Expecting value: line 1 column 1 (char 0)''), [])"
proof -
  have failed: "json_loads demo_world (body broken_request) =
      Inl (OtherException ''Expecting value: line 1 column 1 (char 0)'')"
    by (simp add: demo_defs)
  from unparsed_body_propagates [OF failed] failed show ?thesis by simp
qed

end
